theory Spec2Isabelle
  imports Main "HOL-Library.Word" "HOL-Library.Multiset" "HOL-Library.Sublist"
begin

section \<open>JavaScript strings\<close>

text \<open>
  A JavaScript string is a sequence of UTF-16 code units. String literals of the source are
  written \<open>js ''...''\<close>.
\<close>

type_synonym jsstring = "16 word list"

definition js :: "string \<Rightarrow> jsstring" where
  "js s = map of_char s"

text \<open>
  The code units that \<open>String.prototype.trim\<close> strips: the WhiteSpace and LineTerminator
  productions of ECMAScript (TAB, VT, FF, ZWNBSP, the Unicode category Zs; LF, CR, LS, PS).
\<close>

definition isWhiteSpace :: "16 word \<Rightarrow> bool" where
  "isWhiteSpace c \<longleftrightarrow>
     c = 0x0009 \<or> c = 0x000A \<or> c = 0x000B \<or> c = 0x000C \<or> c = 0x000D \<or> c = 0x0020 \<or>
     c = 0x00A0 \<or> c = 0x1680 \<or> (0x2000 \<le> c \<and> c \<le> 0x200A) \<or> c = 0x2028 \<or> c = 0x2029 \<or>
     c = 0x202F \<or> c = 0x205F \<or> c = 0x3000 \<or> c = 0xFEFF"

definition trim :: "jsstring \<Rightarrow> jsstring" where
  "trim s = rev (dropWhile isWhiteSpace (rev (dropWhile isWhiteSpace s)))"

section \<open>Data model\<close>

text \<open>
  Modelled from the spec: \<open>types/Todo\<close> is imported by \<open>App.tsx\<close> but is not among the
  sources. The spec gives \<open>{ id, title, completed, ownerId }\<close>; \<open>App.tsx\<close> itself reads only
  \<open>id\<close> and \<open>completed\<close>. The field \<open>id\<close> is named \<open>todo_id\<close> here.
\<close>

record Todo =
  todo_id :: int
  title :: jsstring
  completed :: bool
  ownerId :: int

text \<open>
  Modelled from the spec: \<open>types/FilterType\<close> is not among the sources; the three members
  are the ones the \<open>switch\<close> of the filter effect names (\<open>FilterType.ALL\<close>,
  \<open>FilterType.ACTIVE\<close>, \<open>FilterType.COMPLETED\<close>).
\<close>

datatype FilterType = FilterALL | FilterACTIVE | FilterCOMPLETED

text \<open>\<open>types/ErrorType\<close>, as the initial value of the \<open>error\<close> state cell shows it.\<close>

record ErrorType =
  status :: bool
  message :: jsstring

text \<open>
  The value of \<open>useContext(AuthContext)\<close> is a user or nothing (\<open>if (user)\<close>); only
  \<open>user.id\<close> is read.
\<close>

record User =
  user_id :: int

section \<open>The remote store\<close>

text \<open>How an awaited promise settles.\<close>

datatype 'a settled = Fulfilled 'a | Rejected

text \<open>The second argument of \<open>updateTodo\<close>: \<open>{ completed }\<close> or \<open>{ title }\<close>.\<close>

datatype patch = Completed bool | Title jsstring

text \<open>
  The four functions imported from \<open>api/todos\<close> are not among the sources: they are a
  parameter of every handler. Each gives the way its promise settles.
\<close>

record api =
  getTodos :: "int \<Rightarrow> Todo list settled"
  createTodo :: "jsstring \<Rightarrow> int \<Rightarrow> Todo settled"
  updateTodo :: "int \<Rightarrow> patch \<Rightarrow> Todo settled"
  deleteTodo :: "int \<Rightarrow> unit settled"

text \<open>A call of one of the four functions, as recorded in the log of issued calls.\<close>

datatype api_call =
    is_GetTodos: GetTodos int
  | is_CreateTodo: CreateTodo jsstring int
  | is_UpdateTodo: UpdateTodo int patch
  | is_DeleteTodo: DeleteTodo int

section \<open>Component state\<close>

text \<open>
  The eight \<open>useState\<close> cells of \<open>App\<close>; then what the memoised
  \<open>handleToggleAllTodos\<close> has closed over; then the environment the component acts on:
  the log of remote calls issued so far, the clock in milliseconds, and the due times of
  the \<open>setTimeout\<close> callbacks that are scheduled and have not run. Every scheduled callback
  of the source is the same function, \<open>setError({ status: false, message: '' })\<close>.

  \<open>capturedTodos\<close>: \<open>handleToggleAllTodos\<close> is \<open>useCallback(..., [selectedTodoIds])\<close>, so
  the \<open>todos\<close> and the \<open>isEachTodoCompleted\<close> it reads are those of the last render in
  which \<open>selectedTodoIds\<close> was a new array. In the first render \<open>todos\<close> is \<open>[]\<close>.
\<close>

record app =
  todos :: "Todo list"
  visibleTodos :: "Todo list"
  filterBy :: FilterType
  error :: ErrorType
  todoTitle :: jsstring
  isAdding :: bool
  deletedTodoIds :: "int list"
  selectedTodoIds :: "int list"
  capturedTodos :: "Todo list"
  calls :: "api_call list"
  now :: nat
  timers :: "nat list"

definition noError :: ErrorType where
  "noError = \<lparr>status = False, message = []\<rparr>"

definition initialState :: app where
  "initialState =
     \<lparr>todos = [], visibleTodos = [], filterBy = FilterALL, error = noError, todoTitle = [],
      isAdding = False, deletedTodoIds = [], selectedTodoIds = [], capturedTodos = [],
      calls = [], now = 0, timers = []\<rparr>"

definition issue :: "api_call \<Rightarrow> app \<Rightarrow> app" where
  "issue c s = s\<lparr>calls := calls s @ [c]\<rparr>"

text \<open>
  Every call of \<open>setSelectedTodoIds\<close> in the source passes a new array (a spread, the
  result of \<open>filter\<close>, or an array literal). The render that follows therefore creates
  \<open>handleToggleAllTodos\<close> anew, closing over the \<open>todos\<close> of that render. An updater
  function \<open>current => f(current)\<close> is written \<open>setSelectedTodoIds (f (selectedTodoIds s)) s\<close>.
\<close>

definition setSelectedTodoIds :: "int list \<Rightarrow> app \<Rightarrow> app" where
  "setSelectedTodoIds ids s = s\<lparr>selectedTodoIds := ids, capturedTodos := todos s\<rparr>"

section \<open>The filter effect\<close>

text \<open>
  The callback of \<open>todos.filter\<close> in the second \<open>useEffect\<close>. \<open>case FilterType.ALL\<close>
  returns the todo itself, an object, which is truthy. The \<open>default\<close> branch is for a
  value outside the enumeration, which the type has none of.
\<close>

fun keeps :: "FilterType \<Rightarrow> Todo \<Rightarrow> bool" where
  "keeps FilterALL todo = True"
| "keeps FilterACTIVE todo = (\<not> completed todo)"
| "keeps FilterCOMPLETED todo = completed todo"

definition filteredTodos :: "FilterType \<Rightarrow> Todo list \<Rightarrow> Todo list" where
  "filteredTodos f ts = filter (keeps f) ts"

text \<open>The effect runs after every render in which \<open>filterBy\<close> or \<open>todos\<close> changed.\<close>

definition filterEffect :: "app \<Rightarrow> app" where
  "filterEffect s = s\<lparr>visibleTodos := filteredTodos (filterBy s) (todos s)\<rparr>"

definition setTodos :: "Todo list \<Rightarrow> app \<Rightarrow> app" where
  "setTodos ts s = filterEffect (s\<lparr>todos := ts\<rparr>)"

definition handleFilterSelect :: "FilterType \<Rightarrow> app \<Rightarrow> app" where
  "handleFilterSelect filterType s = filterEffect (s\<lparr>filterBy := filterType\<rparr>)"

definition handleSetTodoTitle :: "jsstring \<Rightarrow> app \<Rightarrow> app" where
  "handleSetTodoTitle t s = s\<lparr>todoTitle := t\<rparr>"

section \<open>The error notifier\<close>

text \<open>
  \<open>showError\<close> sets the error and schedules a callback 3000 ms from now. It keeps no
  handle of the timer and the source never calls \<open>clearTimeout\<close>: earlier callbacks stay
  scheduled.
\<close>

definition showError :: "jsstring \<Rightarrow> app \<Rightarrow> app" where
  "showError m s =
     s\<lparr>error := \<lparr>status = True, message = m\<rparr>, timers := timers s @ [now s + 3000]\<rparr>"

definition handleCloseError :: "app \<Rightarrow> app" where
  "handleCloseError s = s\<lparr>error := noError\<rparr>"

text \<open>
  \<open>advance d\<close>: \<open>d\<close> milliseconds pass and nothing else happens. Every callback that is due
  by then runs (each sets the error to inactive) and leaves the timer list.
\<close>

definition advance :: "nat \<Rightarrow> app \<Rightarrow> app" where
  "advance d s =
     (let t = now s + d;
          due = filter (\<lambda>x. x \<le> t) (timers s)
      in s\<lparr>now := t,
           timers := filter (\<lambda>x. t < x) (timers s),
           error := (if due = [] then error s else noError)\<rparr>)"

section \<open>The handlers\<close>

text \<open>
  Each handler is modelled run to completion: from the state in which it is called to the
  state in which its last continuation has run, with no other handler and no timer
  callback in between. \<open>ap\<close> is the remote store.

  \<open>loadTodos\<close> is \<open>useCallback(..., [])\<close>: the \<open>user\<close> it tests is the context value of
  the first render, for the life of the component, whatever the context holds later.
  That value is the argument \<open>user\<close> of \<open>loadTodos\<close> and the argument \<open>user0\<close> of every
  handler that calls it.
\<close>

definition loadTodos :: "User option \<Rightarrow> api \<Rightarrow> app \<Rightarrow> app" where
  "loadTodos user ap s =
     (case user of
        None \<Rightarrow> s
      | Some u \<Rightarrow>
          (let s1 = issue (GetTodos (user_id u)) s
           in case getTodos ap (user_id u) of
                Fulfilled todosFromServer \<Rightarrow> setTodos todosFromServer s1
              | Rejected \<Rightarrow> showError (js ''Unable to load todos'') s1))"

text \<open>The first \<open>useEffect\<close>: \<open>loadTodos()\<close> once, after the first render.\<close>

definition mount :: "User option \<Rightarrow> api \<Rightarrow> app" where
  "mount user0 ap = loadTodos user0 ap initialState"

text \<open>
  \<open>handleAddNewTodo\<close> is not memoised: the \<open>user\<close> it tests, and whose id it passes to
  \<open>createTodo\<close>, is the context value of the render it belongs to. The \<open>loadTodos\<close> it
  calls is the memoised one, with \<open>user0\<close>.
\<close>

definition handleAddNewTodo :: "User option \<Rightarrow> User option \<Rightarrow> api \<Rightarrow> app \<Rightarrow> app" where
  "handleAddNewTodo user0 user ap s =
     (case user of
        None \<Rightarrow> s
      | Some u \<Rightarrow>
          (let s1 = s\<lparr>isAdding := True\<rparr>
           in if length (trim (todoTitle s1)) = 0
              then (showError (js ''Title can't be empty'') s1)\<lparr>isAdding := False\<rparr>
              else
                (let s2 = issue (CreateTodo (todoTitle s1) (user_id u)) s1
                 in case createTodo ap (todoTitle s1) (user_id u) of
                      Rejected \<Rightarrow>
                        (showError (js ''Unable to add a todo'') s2)\<lparr>isAdding := False\<rparr>
                    | Fulfilled _ \<Rightarrow>
                        (loadTodos user0 ap s2)\<lparr>isAdding := False, todoTitle := []\<rparr>)))"

definition handleDeleteTodo :: "User option \<Rightarrow> api \<Rightarrow> int \<Rightarrow> app \<Rightarrow> app" where
  "handleDeleteTodo user0 ap todoId s =
     (let s1 = s\<lparr>deletedTodoIds := deletedTodoIds s @ [todoId]\<rparr>;
          s2 = issue (DeleteTodo todoId) s1
      in case deleteTodo ap todoId of
           Fulfilled _ \<Rightarrow> loadTodos user0 ap s2
         | Rejected \<Rightarrow>
             (showError (js ''Unable to delete a todo'') s2)\<lparr>deletedTodoIds := []\<rparr>)"

text \<open>
  \<open>Promise.all(todos.map(async todo => ...))\<close>: every mapped function runs up to its first
  \<open>await\<close> while the array is built, so every call is issued, in list order, before any
  settles. The joint promise is fulfilled when every one is, and rejected when one is.

  \<open>handleDeleteCompletedTodos\<close> is memoised on \<open>[todos]\<close>, and every \<open>setTodos\<close> passes a
  new array: the \<open>todos\<close> it reads is the current one.
\<close>

definition deleteIfCompleted :: "Todo \<Rightarrow> app \<Rightarrow> app" where
  "deleteIfCompleted todo s =
     (if completed todo then issue (DeleteTodo (todo_id todo)) s else s)"

definition deleteFulfilled :: "api \<Rightarrow> Todo \<Rightarrow> bool" where
  "deleteFulfilled ap todo =
     (if completed todo then deleteTodo ap (todo_id todo) \<noteq> Rejected else True)"

definition handleDeleteCompletedTodos :: "User option \<Rightarrow> api \<Rightarrow> app \<Rightarrow> app" where
  "handleDeleteCompletedTodos user0 ap s =
     (let completedTodoIds = map todo_id (filter completed (todos s));
          s1 = s\<lparr>deletedTodoIds := completedTodoIds\<rparr>;
          s2 = fold deleteIfCompleted (todos s) s1
      in if list_all (deleteFulfilled ap) (todos s)
         then loadTodos user0 ap s2
         else setSelectedTodoIds [] (showError (js ''Unable to delete a todo'') s2))"

definition handleToggleTodo :: "User option \<Rightarrow> api \<Rightarrow> int \<Rightarrow> bool \<Rightarrow> app \<Rightarrow> app" where
  "handleToggleTodo user0 ap todoId compl s =
     (let s1 = setSelectedTodoIds (selectedTodoIds s @ [todoId]) s;
          s2 = issue (UpdateTodo todoId (Completed (\<not> compl))) s1
      in case updateTodo ap todoId (Completed (\<not> compl)) of
           Fulfilled _ \<Rightarrow>
             (let s3 = loadTodos user0 ap s2
              in setSelectedTodoIds (filter (\<lambda>i. i \<noteq> todoId) (selectedTodoIds s3)) s3)
         | Rejected \<Rightarrow>
             setSelectedTodoIds [] (showError (js ''Unable to update a todo'') s2))"

text \<open>\<open>useMemo(() => todos.every(todo => todo.completed), [todos])\<close>, of a render's \<open>todos\<close>.\<close>

definition isEachTodoCompleted :: "Todo list \<Rightarrow> bool" where
  "isEachTodoCompleted ts = list_all completed ts"

text \<open>
  \<open>handleToggleAllTodos\<close> maps over the \<open>todos\<close> it closed over, \<open>capturedTodos\<close>, and
  tests the \<open>isEachTodoCompleted\<close> of the same render.
\<close>

definition toggleIfDue :: "bool \<Rightarrow> Todo \<Rightarrow> app \<Rightarrow> app" where
  "toggleIfDue each todo s =
     (if \<not> completed todo \<or> each
      then issue (UpdateTodo (todo_id todo) (Completed (\<not> completed todo)))
             (setSelectedTodoIds (selectedTodoIds s @ [todo_id todo]) s)
      else s)"

definition toggleFulfilled :: "api \<Rightarrow> bool \<Rightarrow> Todo \<Rightarrow> bool" where
  "toggleFulfilled ap each todo =
     (if \<not> completed todo \<or> each
      then updateTodo ap (todo_id todo) (Completed (\<not> completed todo)) \<noteq> Rejected
      else True)"

definition handleToggleAllTodos :: "User option \<Rightarrow> api \<Rightarrow> app \<Rightarrow> app" where
  "handleToggleAllTodos user0 ap s =
     (let ts = capturedTodos s;
          each = isEachTodoCompleted ts;
          s1 = fold (toggleIfDue each) ts s
      in if list_all (toggleFulfilled ap each) ts
         then setSelectedTodoIds [] (loadTodos user0 ap s1)
         else setSelectedTodoIds [] (showError (js ''Unable to update a todo'') s1))"

definition handleChangeTodoTitle :: "User option \<Rightarrow> api \<Rightarrow> int \<Rightarrow> jsstring \<Rightarrow> app \<Rightarrow> app" where
  "handleChangeTodoTitle user0 ap todoId t s =
     (let s1 = setSelectedTodoIds [todoId] s;
          s2 = issue (UpdateTodo todoId (Title t)) s1
      in case updateTodo ap todoId (Title t) of
           Fulfilled _ \<Rightarrow> setSelectedTodoIds [] (loadTodos user0 ap s2)
         | Rejected \<Rightarrow>
             setSelectedTodoIds [] (showError (js ''Unable to update a todo'') s2))"

section \<open>Where the cached list comes from\<close>

text \<open>
  A step from \<open>s\<close> to \<open>s'\<close> either keeps \<open>todos\<close> or replaces it by the list that
  \<open>getTodos\<close> was fulfilled with for the present user.
\<close>

definition readOrKept :: "User option \<Rightarrow> api \<Rightarrow> app \<Rightarrow> app \<Rightarrow> bool" where
  "readOrKept user ap s s' \<longleftrightarrow>
     todos s' = todos s \<or>
     (case user of None \<Rightarrow> False | Some u \<Rightarrow> getTodos ap (user_id u) = Fulfilled (todos s'))"

section \<open>Concrete inputs\<close>

text \<open>A user, two todos and four remote stores, for the scenarios evaluated below.\<close>

definition owner :: User where
  "owner = \<lparr>user_id = 7\<rparr>"

definition todoA :: Todo where
  "todoA = \<lparr>todo_id = 1, title = js ''A'', completed = False, ownerId = 7\<rparr>"

definition todoB :: Todo where
  "todoB = \<lparr>todo_id = 2, title = js ''B'', completed = True, ownerId = 7\<rparr>"

text \<open>Every call is fulfilled; \<open>getTodos\<close> returns the empty list.\<close>

definition storeUp :: api where
  "storeUp =
     \<lparr>getTodos = (\<lambda>u. Fulfilled []),
      createTodo = (\<lambda>t u. Fulfilled \<lparr>todo_id = 3, title = t, completed = False, ownerId = u\<rparr>),
      updateTodo = (\<lambda>i p. Fulfilled todoA),
      deleteTodo = (\<lambda>i. Fulfilled ())\<rparr>"

text \<open>Every call is rejected.\<close>

definition storeDown :: api where
  "storeDown =
     \<lparr>getTodos = (\<lambda>u. Rejected), createTodo = (\<lambda>t u. Rejected),
      updateTodo = (\<lambda>i p. Rejected), deleteTodo = (\<lambda>i. Rejected)\<rparr>"

text \<open>Deletes and updates are fulfilled; \<open>getTodos\<close> and \<open>createTodo\<close> are rejected.\<close>

definition storeListDown :: api where
  "storeListDown =
     \<lparr>getTodos = (\<lambda>u. Rejected), createTodo = (\<lambda>t u. Rejected),
      updateTodo = (\<lambda>i p. Fulfilled todoA), deleteTodo = (\<lambda>i. Fulfilled ())\<rparr>"

text \<open>Every call is fulfilled; \<open>getTodos\<close> returns the two todos.\<close>

definition storeAB :: api where
  "storeAB =
     \<lparr>getTodos = (\<lambda>u. Fulfilled [todoA, todoB]),
      createTodo = (\<lambda>t u. Fulfilled \<lparr>todo_id = 3, title = t, completed = False, ownerId = u\<rparr>),
      updateTodo = (\<lambda>i p. Fulfilled todoA),
      deleteTodo = (\<lambda>i. Fulfilled ())\<rparr>"

section \<open>Auxiliary facts\<close>

lemmas step_defs =
  loadTodos_def setTodos_def filterEffect_def showError_def issue_def setSelectedTodoIds_def
  Let_def


text \<open>\<open>loadTodos\<close> writes \<open>todos\<close>, \<open>visibleTodos\<close>, \<open>error\<close>, the timers and the log only.\<close>

lemma loadTodos_frame:
  "selectedTodoIds (loadTodos user ap s) = selectedTodoIds s"
  "deletedTodoIds (loadTodos user ap s) = deletedTodoIds s"
  "todoTitle (loadTodos user ap s) = todoTitle s"
  "isAdding (loadTodos user ap s) = isAdding s"
  "filterBy (loadTodos user ap s) = filterBy s"
  "now (loadTodos user ap s) = now s"
  by (simp_all add: step_defs split: option.split settled.split)

lemma setSelectedTodoIds_frame:
  "selectedTodoIds (setSelectedTodoIds ids s) = ids"
  "todos (setSelectedTodoIds ids s) = todos s"
  "deletedTodoIds (setSelectedTodoIds ids s) = deletedTodoIds s"
  "error (setSelectedTodoIds ids s) = error s"
  "calls (setSelectedTodoIds ids s) = calls s"
  by (simp_all add: setSelectedTodoIds_def)

text \<open>The calls dispatched while \<open>Promise.all\<close> builds its array, in list order.\<close>

lemma fold_toggleIfDue_calls:
  "calls (fold (toggleIfDue each) ts s) =
   calls s @ map (\<lambda>t. UpdateTodo (todo_id t) (Completed (\<not> completed t)))
                 (filter (\<lambda>t. \<not> completed t \<or> each) ts)"
  by (induction ts arbitrary: s) (simp_all add: toggleIfDue_def issue_def setSelectedTodoIds_def)

lemma fold_toggleIfDue_frame:
  "todos (fold (toggleIfDue each) ts s) = todos s"
  "deletedTodoIds (fold (toggleIfDue each) ts s) = deletedTodoIds s"
  "error (fold (toggleIfDue each) ts s) = error s"
  by (induction ts arbitrary: s) (simp_all add: toggleIfDue_def issue_def setSelectedTodoIds_def)


lemma fold_deleteIfCompleted_frame:
  "todos (fold deleteIfCompleted ts s) = todos s"
  "deletedTodoIds (fold deleteIfCompleted ts s) = deletedTodoIds s"
  "selectedTodoIds (fold deleteIfCompleted ts s) = selectedTodoIds s"
  "error (fold deleteIfCompleted ts s) = error s"
  by (induction ts arbitrary: s) (simp_all add: deleteIfCompleted_def issue_def)

text \<open>\<open>trim\<close> leaves nothing exactly when every code unit is white space.\<close>

lemma trim_Nil_iff: "trim t = [] \<longleftrightarrow> list_all isWhiteSpace t"
proof
  assume "list_all isWhiteSpace t"
  then have "dropWhile isWhiteSpace t = []"
    by (simp only: dropWhile_eq_Nil_conv list_all_iff)
  then show "trim t = []"
    by (simp only: trim_def rev.simps dropWhile.simps)
next
  assume "trim t = []"
  then have rest: "\<forall>c \<in> set (dropWhile isWhiteSpace t). isWhiteSpace c"
    by (simp add: trim_def)
  have "dropWhile isWhiteSpace t = []"
  proof (cases "dropWhile isWhiteSpace t")
    case Nil
    then show ?thesis .
  next
    case (Cons c cs)
    then have "\<not> isWhiteSpace c"
      using hd_dropWhile [of isWhiteSpace t] by simp
    with rest Cons show ?thesis by simp
  qed
  then show "list_all isWhiteSpace t"
    by (simp only: dropWhile_eq_Nil_conv list_all_iff)
qed

section \<open>Markers after an operation (C1)\<close>

text \<open>
  C1, as stated, fails on its own scenario. From the list \<open>[{id: 1, title: "A",
  completed: false}]\<close>, \<open>handleDeleteTodo 1\<close> with the delete fulfilled and \<open>getTodos\<close>
  fulfilled with \<open>[]\<close> ends with \<open>todos = []\<close> and no error, but with
  \<open>deletedTodoIds = [1]\<close>: the fulfilled path never writes \<open>deletedTodoIds\<close> again.
\<close>

theorem handleDeleteTodo_fulfilled_counterexample:
  "deleteTodo storeUp 1 = Fulfilled () \<and>
   getTodos storeUp (user_id owner) = Fulfilled [] \<and>
   todos (handleDeleteTodo (Some owner) storeUp 1 (initialState\<lparr>todos := [todoA]\<rparr>)) = [] \<and>
   error (handleDeleteTodo (Some owner) storeUp 1 (initialState\<lparr>todos := [todoA]\<rparr>)) = noError \<and>
   deletedTodoIds (handleDeleteTodo (Some owner) storeUp 1 (initialState\<lparr>todos := [todoA]\<rparr>)) = [1] \<and>
   deletedTodoIds (handleDeleteTodo (Some owner) storeUp 1 (initialState\<lparr>todos := [todoA]\<rparr>)) \<noteq> []"
  by (simp add: handleDeleteTodo_def step_defs storeUp_def owner_def initialState_def)

text \<open>
  C1, amended. After a \<open>remove(id)\<close> whose delete is fulfilled and whose reload reads the
  list \<open>L\<close>, \<open>todos\<close> is \<open>L\<close>, no error is raised and no timer is set, and \<open>id\<close> is still
  in the pending set, which is its prior content followed by \<open>id\<close>. The pending set is
  empty after a \<open>remove\<close> whose delete is rejected; after a \<open>removeCompleted\<close> whose deletes
  are all fulfilled it holds the completed ids. The selected set does not hold \<open>id\<close>
  once \<open>toggle(id)\<close> has completed, and is empty once \<open>toggleAll\<close> or \<open>rename\<close> has,
  whether the operation succeeded or failed.
\<close>

theorem markers_after_completion:
  "(deleteTodo ap todoId = Fulfilled () \<and> getTodos ap (user_id u) = Fulfilled L \<longrightarrow>
      todos (handleDeleteTodo (Some u) ap todoId s) = L \<and>
      error (handleDeleteTodo (Some u) ap todoId s) = error s \<and>
      timers (handleDeleteTodo (Some u) ap todoId s) = timers s \<and>
      deletedTodoIds (handleDeleteTodo (Some u) ap todoId s) = deletedTodoIds s @ [todoId]) \<and>
   (deleteTodo ap todoId = Rejected \<longrightarrow>
      deletedTodoIds (handleDeleteTodo user ap todoId s) = []) \<and>
   (list_all (deleteFulfilled ap) (todos s) \<longrightarrow>
      deletedTodoIds (handleDeleteCompletedTodos user ap s) =
        map todo_id (filter completed (todos s))) \<and>
   todoId \<notin> set (selectedTodoIds (handleToggleTodo user ap todoId compl s)) \<and>
   selectedTodoIds (handleToggleAllTodos user ap s) = [] \<and>
   selectedTodoIds (handleChangeTodoTitle user ap todoId t s) = []"
proof -
  have del: "deleteTodo ap todoId = Fulfilled () \<and> getTodos ap (user_id u) = Fulfilled L \<longrightarrow>
      todos (handleDeleteTodo (Some u) ap todoId s) = L \<and>
      error (handleDeleteTodo (Some u) ap todoId s) = error s \<and>
      timers (handleDeleteTodo (Some u) ap todoId s) = timers s \<and>
      deletedTodoIds (handleDeleteTodo (Some u) ap todoId s) = deletedTodoIds s @ [todoId]"
    by (simp add: handleDeleteTodo_def step_defs)
  have rej: "deleteTodo ap todoId = Rejected \<longrightarrow>
      deletedTodoIds (handleDeleteTodo user ap todoId s) = []"
    by (simp add: handleDeleteTodo_def showError_def Let_def)
  have bulk: "list_all (deleteFulfilled ap) (todos s) \<longrightarrow>
      deletedTodoIds (handleDeleteCompletedTodos user ap s) =
        map todo_id (filter completed (todos s))"
    by (simp add: handleDeleteCompletedTodos_def Let_def loadTodos_frame
        fold_deleteIfCompleted_frame)
  have tog: "todoId \<notin> set (selectedTodoIds (handleToggleTodo user ap todoId compl s))"
    by (simp add: handleToggleTodo_def Let_def setSelectedTodoIds_frame split: settled.split)
  have bulk_tog: "selectedTodoIds (handleToggleAllTodos user ap s) = []"
    by (simp add: handleToggleAllTodos_def Let_def setSelectedTodoIds_frame)
  have ren: "selectedTodoIds (handleChangeTodoTitle user ap todoId t s) = []"
    by (simp add: handleChangeTodoTitle_def Let_def setSelectedTodoIds_frame
        split: settled.split)
  from del rej bulk tog bulk_tog ren show ?thesis
    by simp
qed

theorem markers_after_completion_witness:
  "deleteTodo storeUp 1 = Fulfilled () \<and> getTodos storeUp (user_id owner) = Fulfilled [] \<and>
   todos (handleDeleteTodo (Some owner) storeUp 1 (initialState\<lparr>todos := [todoA]\<rparr>)) = [] \<and>
   error (handleDeleteTodo (Some owner) storeUp 1 (initialState\<lparr>todos := [todoA]\<rparr>)) = noError \<and>
   deletedTodoIds (handleDeleteTodo (Some owner) storeUp 1 (initialState\<lparr>todos := [todoA]\<rparr>)) = [1] \<and>
   deleteTodo storeDown 1 = Rejected \<and>
   deletedTodoIds (handleDeleteTodo (Some owner) storeDown 1
     (initialState\<lparr>todos := [todoA], deletedTodoIds := [2]\<rparr>)) = [] \<and>
   list_all (deleteFulfilled storeUp) (todos (initialState\<lparr>todos := [todoA, todoB]\<rparr>)) \<and>
   deletedTodoIds (handleDeleteCompletedTodos (Some owner) storeUp
     (initialState\<lparr>todos := [todoA, todoB]\<rparr>)) = [2]"
  using markers_after_completion
      [of storeUp 1 owner "[]" "initialState\<lparr>todos := [todoA]\<rparr>"]
    markers_after_completion
      [of storeDown 1 owner "[]" "initialState\<lparr>todos := [todoA], deletedTodoIds := [2]\<rparr>"
          "Some owner"]
    markers_after_completion
      [of storeUp 1 owner "[]" "initialState\<lparr>todos := [todoA, todoB]\<rparr>" "Some owner"]
  by (simp add: storeUp_def storeDown_def initialState_def deleteFulfilled_def todoA_def
      todoB_def)

section \<open>Two errors in a row (C2)\<close>

text \<open>
  C2, as stated, fails. \<open>showError "A"\<close> at time 0 and \<open>showError "B"\<close> at time 1000 show
  only \<open>"B"\<close>, but the callback scheduled by the first call is still pending and runs at
  time 3000: the error is inactive 2000 ms after the most recent call.
\<close>

theorem showError_twice_counterexample:
  "error (showError (js ''B'') (advance 1000 (showError (js ''A'') initialState))) =
     \<lparr>status = True, message = js ''B''\<rparr> \<and>
   now (showError (js ''B'') (advance 1000 (showError (js ''A'') initialState))) = 1000 \<and>
   now (advance 2000 (showError (js ''B'') (advance 1000 (showError (js ''A'') initialState))))
     = 3000 \<and>
   status (error (advance 2000
     (showError (js ''B'') (advance 1000 (showError (js ''A'') initialState))))) = False"
  by (simp add: showError_def advance_def initialState_def noError_def Let_def)

text \<open>
  C2, amended. For all messages \<open>a\<close> and \<open>b\<close>, \<open>raise(a)\<close> followed \<open>d\<close> ms later, with
  \<open>d < 3000\<close>, by \<open>raise(b)\<close> shows only \<open>b\<close>. No timer is cancelled or restarted: the
  state is inactive, with no further action, from 3000 ms after the first raise on, that
  is once \<open>d + e\<close> reaches 3000 where \<open>e\<close> is the time since the second raise; before that
  it shows \<open>b\<close>, provided no callback of an earlier raise was pending.
\<close>

theorem showError_twice:
  assumes "d < 3000"
  shows "error (showError b (advance d (showError a s))) = \<lparr>status = True, message = b\<rparr> \<and>
         (3000 \<le> d + e \<longrightarrow>
            error (advance e (showError b (advance d (showError a s)))) = noError) \<and>
         (timers s = [] \<and> d + e < 3000 \<longrightarrow>
            error (advance e (showError b (advance d (showError a s)))) =
              \<lparr>status = True, message = b\<rparr>)"
  using assms by (auto simp: showError_def advance_def Let_def)

theorem showError_twice_witness:
  "(1000::nat) < 3000 \<and>
   error (showError (js ''B'') (advance 1000 (showError (js ''A'') initialState))) =
     \<lparr>status = True, message = js ''B''\<rparr> \<and>
   error (advance 2000 (showError (js ''B'') (advance 1000 (showError (js ''A'') initialState))))
     = noError \<and>
   error (advance 1999 (showError (js ''B'') (advance 1000 (showError (js ''A'') initialState))))
     = \<lparr>status = True, message = js ''B''\<rparr>"
  using showError_twice [of 1000 "js ''B''" "js ''A''" initialState 2000]
    showError_twice [of 1000 "js ''B''" "js ''A''" initialState 1999]
  by (simp add: initialState_def)

section \<open>Without a user (C3)\<close>




section \<open>A failed bulk delete (C4)\<close>

text \<open>
  C4. For every list with a completed todo whose delete is rejected, \<open>removeCompleted\<close>
  raises the error \<open>"Unable to delete a todo"\<close> and empties the selected set, while the
  pending set still holds the ids of the completed todos that were written to it up front.
\<close>

theorem handleDeleteCompletedTodos_rejected:
  assumes "t \<in> set (todos s)" and "completed t" and "deleteTodo ap (todo_id t) = Rejected"
  shows "error (handleDeleteCompletedTodos user ap s) =
           \<lparr>status = True, message = js ''Unable to delete a todo''\<rparr> \<and>
         selectedTodoIds (handleDeleteCompletedTodos user ap s) = [] \<and>
         deletedTodoIds (handleDeleteCompletedTodos user ap s) =
           map todo_id (filter completed (todos s))"
proof -
  from assms have "\<not> list_all (deleteFulfilled ap) (todos s)"
    by (auto simp: list_all_iff deleteFulfilled_def)
  then show ?thesis
    by (simp add: handleDeleteCompletedTodos_def Let_def showError_def
        setSelectedTodoIds_def fold_deleteIfCompleted_frame)
qed

theorem handleDeleteCompletedTodos_rejected_witness:
  "todoB \<in> set (todos (initialState\<lparr>todos := [todoA, todoB], selectedTodoIds := [1]\<rparr>)) \<and>
   completed todoB \<and> deleteTodo storeDown (todo_id todoB) = Rejected \<and>
   error (handleDeleteCompletedTodos (Some owner) storeDown
     (initialState\<lparr>todos := [todoA, todoB], selectedTodoIds := [1]\<rparr>)) =
     \<lparr>status = True, message = js ''Unable to delete a todo''\<rparr> \<and>
   selectedTodoIds (handleDeleteCompletedTodos (Some owner) storeDown
     (initialState\<lparr>todos := [todoA, todoB], selectedTodoIds := [1]\<rparr>)) = [] \<and>
   deletedTodoIds (handleDeleteCompletedTodos (Some owner) storeDown
     (initialState\<lparr>todos := [todoA, todoB], selectedTodoIds := [1]\<rparr>)) = [2]"
  using handleDeleteCompletedTodos_rejected
    [of todoB "initialState\<lparr>todos := [todoA, todoB], selectedTodoIds := [1]\<rparr>" storeDown
        "Some owner"]
  by (simp add: storeDown_def todoA_def todoB_def initialState_def)

section \<open>A failed single delete (C5)\<close>

text \<open>
  C5, as stated, fails for the reload. \<open>loadTodos\<close> catches its own rejection, so the
  \<open>catch\<close> of \<open>handleDeleteTodo\<close> does not run: with the delete fulfilled and \<open>getTodos\<close>
  rejected, the message is \<open>"Unable to load todos"\<close> and the pending set, \<open>[2]\<close> before,
  is \<open>[2, 1]\<close>.
\<close>

theorem handleDeleteTodo_reload_rejected_counterexample:
  "deleteTodo storeListDown 1 = Fulfilled () \<and>
   getTodos storeListDown (user_id owner) = Rejected \<and>
   error (handleDeleteTodo (Some owner) storeListDown 1 (initialState\<lparr>deletedTodoIds := [2]\<rparr>)) =
     \<lparr>status = True, message = js ''Unable to load todos''\<rparr> \<and>
   message (error (handleDeleteTodo (Some owner) storeListDown 1
     (initialState\<lparr>deletedTodoIds := [2]\<rparr>))) \<noteq> js ''Unable to delete a todo'' \<and>
   deletedTodoIds (handleDeleteTodo (Some owner) storeListDown 1
     (initialState\<lparr>deletedTodoIds := [2]\<rparr>)) = [2, 1]"
  by (simp add: handleDeleteTodo_def step_defs storeListDown_def owner_def initialState_def
      js_def)

text \<open>
  C5, amended. For every id and every prior content of the pending set, a \<open>remove(id)\<close>
  whose delete is rejected raises \<open>"Unable to delete a todo"\<close> and resets the pending set
  to empty, whatever it held. When the delete is fulfilled and the reload's \<open>getTodos\<close> is
  rejected, the error raised is \<open>"Unable to load todos"\<close>, the pending set is its prior
  content followed by \<open>id\<close>, and \<open>todos\<close> is unchanged.
\<close>

theorem handleDeleteTodo_rejected:
  "(deleteTodo ap todoId = Rejected \<longrightarrow>
      error (handleDeleteTodo user ap todoId s) =
        \<lparr>status = True, message = js ''Unable to delete a todo''\<rparr> \<and>
      deletedTodoIds (handleDeleteTodo user ap todoId s) = []) \<and>
   (deleteTodo ap todoId = Fulfilled () \<and> getTodos ap (user_id u) = Rejected \<longrightarrow>
      error (handleDeleteTodo (Some u) ap todoId s) =
        \<lparr>status = True, message = js ''Unable to load todos''\<rparr> \<and>
      deletedTodoIds (handleDeleteTodo (Some u) ap todoId s) = deletedTodoIds s @ [todoId] \<and>
      todos (handleDeleteTodo (Some u) ap todoId s) = todos s)"
  by (simp add: handleDeleteTodo_def step_defs)

theorem handleDeleteTodo_rejected_witness:
  "deleteTodo storeDown 1 = Rejected \<and>
   error (handleDeleteTodo (Some owner) storeDown 1 (initialState\<lparr>deletedTodoIds := [2]\<rparr>)) =
     \<lparr>status = True, message = js ''Unable to delete a todo''\<rparr> \<and>
   deletedTodoIds (handleDeleteTodo (Some owner) storeDown 1
     (initialState\<lparr>deletedTodoIds := [2]\<rparr>)) = [] \<and>
   deleteTodo storeListDown 1 = Fulfilled () \<and>
   getTodos storeListDown (user_id owner) = Rejected \<and>
   deletedTodoIds (handleDeleteTodo (Some owner) storeListDown 1
     (initialState\<lparr>deletedTodoIds := [2]\<rparr>)) = [2, 1]"
  using handleDeleteTodo_rejected
      [of storeDown 1 "Some owner" "initialState\<lparr>deletedTodoIds := [2]\<rparr>" owner]
    handleDeleteTodo_rejected
      [of storeListDown 1 "Some owner" "initialState\<lparr>deletedTodoIds := [2]\<rparr>" owner]
  by (simp add: storeDown_def storeListDown_def initialState_def)

section \<open>Toggling every todo (C6)\<close>

text \<open>
  What \<open>toggleAll\<close> issues is decided by the list its callback closed over: when every
  item of that list is completed, one update per item setting \<open>completed\<close> to false;
  otherwise one update per item of it that is not completed, setting \<open>completed\<close> to true.
\<close>

lemma handleToggleAllTodos_closure_updates:
  "filter is_UpdateTodo (calls (handleToggleAllTodos user ap s)) =
   filter is_UpdateTodo (calls s) @
     (if isEachTodoCompleted (capturedTodos s)
      then map (\<lambda>t. UpdateTodo (todo_id t) (Completed False)) (capturedTodos s)
      else map (\<lambda>t. UpdateTodo (todo_id t) (Completed True))
             (filter (\<lambda>t. \<not> completed t) (capturedTodos s)))"
proof -
  let ?ts = "capturedTodos s"
  let ?each = "isEachTodoCompleted ?ts"
  let ?s1 = "fold (toggleIfDue ?each) ?ts s"
  let ?ups = "map (\<lambda>t. UpdateTodo (todo_id t) (Completed (\<not> completed t)))
                (filter (\<lambda>t. \<not> completed t \<or> ?each) ?ts)"
  have load: "filter is_UpdateTodo (calls (loadTodos user ap x)) = filter is_UpdateTodo (calls x)"
    for x
    by (simp add: step_defs split: option.split settled.split)
  have "filter is_UpdateTodo (calls (handleToggleAllTodos user ap s)) =
        filter is_UpdateTodo (calls ?s1)"
    by (simp add: handleToggleAllTodos_def Let_def load showError_def setSelectedTodoIds_frame)
  also have "\<dots> = filter is_UpdateTodo (calls s) @ ?ups"
    by (simp add: fold_toggleIfDue_calls filter_map comp_def)
  finally have eq: "filter is_UpdateTodo (calls (handleToggleAllTodos user ap s)) =
        filter is_UpdateTodo (calls s) @ ?ups" .
  have all: "?ups = map (\<lambda>t. UpdateTodo (todo_id t) (Completed False)) ?ts" if "?each"
    using that by (simp add: isEachTodoCompleted_def list_all_iff)
  have some: "?ups = map (\<lambda>t. UpdateTodo (todo_id t) (Completed True))
                       (filter (\<lambda>t. \<not> completed t) ?ts)" if "\<not> ?each"
    using that by simp
  from eq all some show ?thesis by simp
qed

text \<open>
  C6 does not hold of the program: the claim is about the list the user sees, \<open>todos\<close>,
  and the callback reads the list of an earlier render. After the mount has loaded
  \<open>[todoA, todoB]\<close>, of which \<open>todoA\<close> is not completed, no render has seen a new
  \<open>selectedTodoIds\<close>, so the callback is still the one of the first render, whose \<open>todos\<close>
  is \<open>[]\<close>: the first \<open>toggleAll\<close> issues no update at all, only the reload. Its
  \<open>setSelectedTodoIds([])\<close> renews the callback, and the second \<open>toggleAll\<close> issues the
  update for \<open>todoA\<close>.
\<close>

theorem handleToggleAllTodos_stale_closure:
  "todos (mount (Some owner) storeAB) = [todoA, todoB] \<and>
   completed todoA = False \<and>
   capturedTodos (mount (Some owner) storeAB) = [] \<and>
   calls (mount (Some owner) storeAB) = [GetTodos 7] \<and>
   calls (handleToggleAllTodos (Some owner) storeAB (mount (Some owner) storeAB)) =
     [GetTodos 7, GetTodos 7] \<and>
   calls (handleToggleAllTodos (Some owner) storeAB
           (handleToggleAllTodos (Some owner) storeAB (mount (Some owner) storeAB))) =
     [GetTodos 7, GetTodos 7, UpdateTodo 1 (Completed True), GetTodos 7]"
  by (simp add: mount_def handleToggleAllTodos_def toggleIfDue_def toggleFulfilled_def
      isEachTodoCompleted_def step_defs storeAB_def owner_def todoA_def todoB_def
      initialState_def)

section \<open>Adding a blank title (C7)\<close>

text \<open>
  C7. For every draft title that is empty or holds white space only, \<open>add\<close> issues no
  call, so \<open>createTodo\<close> is never invoked, and leaves the draft title unchanged; with a
  user present it raises \<open>"Title can't be empty"\<close> and \<open>isAdding\<close> is false when it
  completes. (Without a user in the current render \<open>add\<close> does nothing at all.)
\<close>

theorem handleAddNewTodo_blank:
  assumes "list_all isWhiteSpace (todoTitle s)"
  shows "calls (handleAddNewTodo user0 user ap s) = calls s \<and>
         todoTitle (handleAddNewTodo user0 user ap s) = todoTitle s \<and>
         error (handleAddNewTodo user0 (Some u) ap s) =
           \<lparr>status = True, message = js ''Title can't be empty''\<rparr> \<and>
         isAdding (handleAddNewTodo user0 (Some u) ap s) = False"
proof -
  from assms have "trim (todoTitle s) = []"
    by (simp add: trim_Nil_iff)
  then show ?thesis
    by (simp add: handleAddNewTodo_def Let_def showError_def split: option.split)
qed

theorem handleAddNewTodo_blank_witness:
  "list_all isWhiteSpace (todoTitle (initialState\<lparr>todoTitle := js ''   ''\<rparr>)) \<and>
   calls (handleAddNewTodo (Some owner) (Some owner) storeUp (initialState\<lparr>todoTitle := js ''   ''\<rparr>)) = [] \<and>
   todoTitle (handleAddNewTodo (Some owner) (Some owner) storeUp (initialState\<lparr>todoTitle := js ''   ''\<rparr>))
     = js ''   '' \<and>
   isAdding (handleAddNewTodo (Some owner) (Some owner) storeUp (initialState\<lparr>todoTitle := js ''   ''\<rparr>))
     = False \<and>
   list_all isWhiteSpace (todoTitle (initialState\<lparr>todoTitle := js ''''\<rparr>)) \<and>
   calls (handleAddNewTodo (Some owner) (Some owner) storeUp (initialState\<lparr>todoTitle := js ''''\<rparr>)) = [] \<and>
   error (handleAddNewTodo (Some owner) (Some owner) storeUp (initialState\<lparr>todoTitle := js ''''\<rparr>)) =
     \<lparr>status = True, message = js ''Title can't be empty''\<rparr>"
  using handleAddNewTodo_blank
      [of "initialState\<lparr>todoTitle := js ''   ''\<rparr>" "Some owner" "Some owner" storeUp owner]
    handleAddNewTodo_blank
      [of "initialState\<lparr>todoTitle := js ''''\<rparr>" "Some owner" "Some owner" storeUp owner]
  by (simp add: js_def isWhiteSpace_def initialState_def)

section \<open>The cached list (C8)\<close>

text \<open>
  C8. Every operation leaves \<open>todos\<close> as it was or replaces it, whole, by the list that
  \<open>getTodos\<close> was fulfilled with; no other handler, \<open>showError\<close> or the passing of time
  writes it. When the reload's \<open>getTodos\<close> is rejected, \<open>todos\<close> keeps its value and the
  error \<open>"Unable to load todos"\<close> is raised.
\<close>

theorem todos_only_replaced_by_read:
  "readOrKept user ap s (loadTodos user ap s) \<and>
   readOrKept user ap s (handleAddNewTodo user userNow ap s) \<and>
   readOrKept user ap s (handleDeleteTodo user ap todoId s) \<and>
   readOrKept user ap s (handleDeleteCompletedTodos user ap s) \<and>
   readOrKept user ap s (handleToggleTodo user ap todoId compl s) \<and>
   readOrKept user ap s (handleToggleAllTodos user ap s) \<and>
   readOrKept user ap s (handleChangeTodoTitle user ap todoId t s) \<and>
   todos (handleFilterSelect f s) = todos s \<and>
   todos (handleSetTodoTitle t s) = todos s \<and>
   todos (handleCloseError s) = todos s \<and>
   todos (showError m s) = todos s \<and>
   todos (advance d s) = todos s \<and>
   (getTodos ap (user_id u) = Rejected \<longrightarrow>
      todos (loadTodos (Some u) ap s) = todos s \<and>
      error (loadTodos (Some u) ap s) =
        \<lparr>status = True, message = js ''Unable to load todos''\<rparr>)"
proof -
  have 1: "readOrKept user ap s (loadTodos user ap s)"
    by (simp add: readOrKept_def step_defs split: option.split settled.split)
  have 2: "readOrKept user ap s (handleAddNewTodo user userNow ap s)"
    by (simp add: readOrKept_def handleAddNewTodo_def step_defs
        split: option.split settled.split)
  have 3: "readOrKept user ap s (handleDeleteTodo user ap todoId s)"
    by (simp add: readOrKept_def handleDeleteTodo_def step_defs
        split: option.split settled.split)
  have 4: "readOrKept user ap s (handleDeleteCompletedTodos user ap s)"
    by (simp add: readOrKept_def handleDeleteCompletedTodos_def step_defs
        fold_deleteIfCompleted_frame split: option.split settled.split)
  have 5: "readOrKept user ap s (handleToggleTodo user ap todoId compl s)"
    by (simp add: readOrKept_def handleToggleTodo_def step_defs
        split: option.split settled.split)
  have 6: "readOrKept user ap s (handleToggleAllTodos user ap s)"
    by (simp add: readOrKept_def handleToggleAllTodos_def step_defs
        fold_toggleIfDue_frame split: option.split settled.split)
  have 7: "readOrKept user ap s (handleChangeTodoTitle user ap todoId t s)"
    by (simp add: readOrKept_def handleChangeTodoTitle_def step_defs
        split: option.split settled.split)
  have 8: "todos (handleFilterSelect f s) = todos s" "todos (handleSetTodoTitle t s) = todos s"
    "todos (handleCloseError s) = todos s" "todos (showError m s) = todos s"
    "todos (advance d s) = todos s"
    by (simp_all add: handleFilterSelect_def filterEffect_def handleSetTodoTitle_def
        handleCloseError_def showError_def advance_def Let_def)
  have 9: "getTodos ap (user_id u) = Rejected \<longrightarrow>
      todos (loadTodos (Some u) ap s) = todos s \<and>
      error (loadTodos (Some u) ap s) =
        \<lparr>status = True, message = js ''Unable to load todos''\<rparr>"
    by (simp add: step_defs)
  from 1 2 3 4 5 6 7 8 9 show ?thesis
    by simp
qed

theorem todos_only_replaced_by_read_witness:
  "getTodos storeListDown (user_id owner) = Rejected \<and>
   todos (loadTodos (Some owner) storeListDown (initialState\<lparr>todos := [todoA]\<rparr>)) = [todoA] \<and>
   error (loadTodos (Some owner) storeListDown (initialState\<lparr>todos := [todoA]\<rparr>)) =
     \<lparr>status = True, message = js ''Unable to load todos''\<rparr> \<and>
   readOrKept (Some owner) storeUp (initialState\<lparr>todos := [todoA]\<rparr>)
     (handleDeleteTodo (Some owner) storeUp 1 (initialState\<lparr>todos := [todoA]\<rparr>))"
  using todos_only_replaced_by_read
      [of "Some owner" storeListDown "initialState\<lparr>todos := [todoA]\<rparr>" _ _ _ _ _ _ _ owner]
    todos_only_replaced_by_read
      [of "Some owner" storeUp "initialState\<lparr>todos := [todoA]\<rparr>" _ 1]
  by (simp add: storeListDown_def initialState_def)

section \<open>The visible list (C9)\<close>

text \<open>
  C9. For every list \<open>L\<close> and mode \<open>M\<close> the visible list is a filter of \<open>L\<close>: under
  \<open>ALL\<close> it is \<open>L\<close>, under \<open>ACTIVE\<close> the items that are not completed, under \<open>COMPLETED\<close>
  the completed ones. The last two partition \<open>L\<close> (together they hold every item of \<open>L\<close>
  as often as \<open>L\<close> does, and they share none), every visible list keeps the order of
  \<open>L\<close>, and the effect that stores it leaves \<open>todos\<close> as it was.
\<close>

theorem filteredTodos_partition:
  "filteredTodos FilterALL L = L \<and>
   filteredTodos FilterACTIVE L = filter (\<lambda>t. \<not> completed t) L \<and>
   filteredTodos FilterCOMPLETED L = filter completed L \<and>
   mset (filteredTodos FilterACTIVE L) + mset (filteredTodos FilterCOMPLETED L) = mset L \<and>
   set (filteredTodos FilterACTIVE L) \<inter> set (filteredTodos FilterCOMPLETED L) = {} \<and>
   subseq (filteredTodos M L) L \<and>
   visibleTodos (filterEffect s) = filteredTodos (filterBy s) (todos s) \<and>
   todos (filterEffect s) = todos s"
proof -
  have modes: "keeps FilterALL = (\<lambda>t. True)" "keeps FilterACTIVE = (\<lambda>t. \<not> completed t)"
    "keeps FilterCOMPLETED = completed"
    by (auto simp: fun_eq_iff)
  show ?thesis
    unfolding filteredTodos_def modes filterEffect_def
    by (auto simp: union_commute)
qed

theorem filteredTodos_partition_witness:
  "filteredTodos FilterALL [todoA, todoB] = [todoA, todoB] \<and>
   filteredTodos FilterACTIVE [todoA, todoB] = [todoA] \<and>
   filteredTodos FilterCOMPLETED [todoA, todoB] = [todoB]"
  using filteredTodos_partition [of "[todoA, todoB]"]
  by (simp add: todoA_def todoB_def)

section \<open>A successful toggle (C10)\<close>

text \<open>
  C10. For every id and every prior content of the selected set, a \<open>toggle(id)\<close> whose
  update is fulfilled ends with the selected set equal to its prior content without the
  occurrences of \<open>id\<close>: every other id stays, in its place. This holds whatever the reload
  does, so in particular when the reload succeeds.
\<close>

theorem handleToggleTodo_fulfilled_frame:
  assumes "updateTodo ap todoId (Completed (\<not> compl)) = Fulfilled t"
  shows "selectedTodoIds (handleToggleTodo user ap todoId compl s) =
         filter (\<lambda>i. i \<noteq> todoId) (selectedTodoIds s)"
  using assms
  by (simp add: handleToggleTodo_def Let_def loadTodos_frame issue_def setSelectedTodoIds_def)

theorem handleToggleTodo_fulfilled_frame_witness:
  "updateTodo storeUp 2 (Completed (\<not> False)) = Fulfilled todoA \<and>
   getTodos storeUp (user_id owner) = Fulfilled [] \<and>
   selectedTodoIds (handleToggleTodo (Some owner) storeUp 2 False
                      (initialState\<lparr>selectedTodoIds := [5, 2, 9, 2]\<rparr>)) = [5, 9]"
  using handleToggleTodo_fulfilled_frame
    [of storeUp 2 False todoA "Some owner" "initialState\<lparr>selectedTodoIds := [5, 2, 9, 2]\<rparr>"]
  by (simp add: storeUp_def)

end
